theory Spec2Isabelle
  imports Main
begin

section \<open>The background script of the wallet (src/background.js)\<close>

text \<open>
  The script keeps three module variables (\<open>seed\<close>, \<open>inactivityInterval\<close>,
  \<open>timeoutLocker\<close>) and answers the messages of the internal stream through the static
  methods of the class \<open>Background\<close>.  Every method is embedded as a function from the state
  before the call to the state after it.  The state also records what the script does to its
  collaborators: the document held by \<open>StorageService\<close>, the prompts handed to
  \<open>NotificationService.open\<close> and the values given to the request's \<open>sendResponse\<close>.

  A method of the source takes a callback (\<open>sendResponse\<close>, \<open>cb\<close>); so does its embedding, as a
  function that transforms the state.  Requests are handled one at a time, each to completion.
  Where a handler creates one promise, its continuation (\<open>.then\<close>) is run where the promise is
  created.  Where it creates two before either continuation runs (\<open>addHistory\<close> and
  \<open>addPermissions\<close> in \<open>getOrRequestIdentity\<close>), both continuations get the document that
  was stored when the two reads were issued.  An exception thrown in a continuation ends that
  continuation and nothing else: the embedding returns the state reached when it is thrown.

  Payloads have the types that the handlers use them at: the payload of \<open>SET_SEED\<close> is a
  string, that of \<open>UPDATE\<close> a vault.
\<close>

subsection \<open>Passphrases and encrypted strings\<close>

type_synonym passphrase = string

text \<open>
  A string that holds a secret: clear text, or what \<open>AES.encrypt\<close> made of such a string under
  a passphrase.
\<close>

datatype secret = Plain string | Cipher passphrase secret

text \<open>
  Modelled from the spec: \<open>AES.encrypt\<close> and \<open>AES.decrypt\<close> of the module \<open>aes-oop\<close>, which is
  not part of src.  The spec's Codec gives a round trip for the passphrase that encrypted and a
  decode failure (an exception, here \<open>None\<close>) for any other one; a string that is no cipher
  text does not decode either.
\<close>

definition AES_encrypt :: "secret \<Rightarrow> passphrase \<Rightarrow> secret" where
  "AES_encrypt data key = Cipher key data"

fun AES_decrypt :: "secret \<Rightarrow> passphrase \<Rightarrow> secret option" where
  "AES_decrypt (Cipher k data) key = (if k = key then Some data else None)"
| "AES_decrypt (Plain s) key = None"

fun isCipher :: "secret \<Rightarrow> bool" where
  "isCipher (Cipher k data) = True"
| "isCipher (Plain s) = False"

subsection \<open>The vault\<close>

record network =
  host :: string
  port :: nat

text \<open>
  Modelled from the spec: \<open>Network.unique\<close> (models/Network.js is not part of src), the
  uniqueness key that combines host and port.
\<close>

definition unique :: "network \<Rightarrow> string \<times> nat" where
  "unique n = (host n, port n)"

record keypair =
  kp_publicKey :: string
  kp_privateKey :: secret

record identity =
  id_name :: string
  id_publicKey :: string
  id_privateKey :: secret
  id_fields :: "(string \<times> string) list"

record permission =
  perm_domain :: string
  perm_network :: network
  perm_publicKey :: string
  perm_fields :: "string list"
  perm_timestamp :: nat
  checksum :: string

datatype event_data =
  ProvidedIdentity string network bool string string
| ServiceEvent string

record historic_event =
  ev_type :: string
  ev_data :: event_data
  ev_timestamp :: nat

record keychain =
  keypairs :: "keypair list"
  identities :: "identity list"
  permissions :: "permission list"

text \<open>
  The \<open>keychain\<close> property of a vault is an object, or the string that document encryption
  made of it (\<open>isUnlocked\<close> tells the two apart by \<open>typeof scatter.keychain === 'object'\<close>).
\<close>

datatype keychain_slot = KeychainObject keychain | KeychainString passphrase keychain

record settings =
  settings_inactivityInterval :: nat
  networks :: "network list"

record scatter =
  settings :: settings
  keychain :: keychain_slot
  histories :: "historic_event list"

text \<open>
  Modelled from the spec: \<open>Scatter.encrypt\<close>, \<open>Scatter.decrypt\<close> and \<open>Scatter.isEncrypted\<close>
  (models/Scatter.js is not part of src).  Document encryption turns the keychain into a cipher
  string under the passphrase; the settings stay readable (\<open>load\<close> reads
  \<open>scatter.settings.inactivityInterval\<close> before it decrypts).  Decryption with the passphrase
  that encrypted gives the keychain back, with any other passphrase it throws (\<open>None\<close>), and a
  vault whose keychain is an object already is left as it is.
\<close>

definition isEncrypted :: "scatter \<Rightarrow> bool" where
  "isEncrypted s = (case keychain s of KeychainObject kc \<Rightarrow> False | KeychainString k kc \<Rightarrow> True)"

definition Scatter_encrypt :: "passphrase \<Rightarrow> scatter \<Rightarrow> scatter" where
  "Scatter_encrypt key s =
     (case keychain s of
        KeychainObject kc \<Rightarrow> s\<lparr>keychain := KeychainString key kc\<rparr>
      | KeychainString k kc \<Rightarrow> s)"

definition Scatter_decrypt :: "passphrase \<Rightarrow> scatter \<Rightarrow> scatter option" where
  "Scatter_decrypt key s =
     (case keychain s of
        KeychainObject kc \<Rightarrow> Some s
      | KeychainString k kc \<Rightarrow>
          (if k = key then Some (s\<lparr>keychain := KeychainObject kc\<rparr>) else None))"

text \<open>
  Modelled from the spec: \<open>Keypair.encrypt\<close>, \<open>Identity.encrypt\<close> and \<open>Identity.decrypt\<close>
  (models/Keypair.js and models/Identity.js are not part of src): field encryption and
  decryption of the \<open>privateKey\<close> string with the passphrase.  Field encryption is
  idempotent, as step 1 of the spec's update cycle has it: a private key that is encrypted
  already is left as it is.
\<close>

definition Keypair_encrypt :: "passphrase \<Rightarrow> keypair \<Rightarrow> keypair" where
  "Keypair_encrypt key kp =
     (if isCipher (kp_privateKey kp) then kp
      else kp\<lparr>kp_privateKey := AES_encrypt (kp_privateKey kp) key\<rparr>)"

definition Identity_encrypt :: "passphrase \<Rightarrow> identity \<Rightarrow> identity" where
  "Identity_encrypt key i =
     (if isCipher (id_privateKey i) then i
      else i\<lparr>id_privateKey := AES_encrypt (id_privateKey i) key\<rparr>)"

definition Identity_decrypt :: "passphrase \<Rightarrow> identity \<Rightarrow> identity option" where
  "Identity_decrypt key i =
     (case AES_decrypt (id_privateKey i) key of
        None \<Rightarrow> None
      | Some k \<Rightarrow> Some (i\<lparr>id_privateKey := k\<rparr>))"

text \<open>
  Modelled from the spec: \<open>Keychain.findIdentity\<close> and \<open>Keychain.hasPermission\<close>
  (models/Keychain.js is not part of src).  An identity is looked up by its public key.  A
  permission is present when an entry of \<open>permissions\<close> has its checksum: the spec's grant
  inserts a permission only if no entry shares its checksum; the fields that the caller passes
  as well take no part in it.
\<close>

definition findIdentity :: "string \<Rightarrow> keychain \<Rightarrow> identity option" where
  "findIdentity publicKey kc = find (\<lambda>i. id_publicKey i = publicKey) (identities kc)"

definition hasPermission :: "string \<Rightarrow> string list \<Rightarrow> keychain \<Rightarrow> bool" where
  "hasPermission c fs kc = (find (\<lambda>p. checksum p = c) (permissions kc) \<noteq> None)"

subsection \<open>Responses, prompts and the state\<close>

datatype error =
  Locked
| IdentityMissing
| MaliciousEvent
| SignatureError string string
| PromptError string

text \<open>What the user answers to a prompt: \<open>false\<close>, an error object, or an approval.\<close>

datatype decision = Declined | DecisionError error | Approved

text \<open>\<open>approved.hasOwnProperty('isError')\<close>, line 336.\<close>

fun isError :: "decision \<Rightarrow> bool" where
  "isError (DecisionError err) = True"
| "isError Declined = False"
| "isError Approved = False"

datatype response =
  RBool bool
| RNull
| RScatter scatter
| RSecret secret
| RIdentity identity
| RSignature string
| RVersion string
| RDecision decision
| RError error

datatype prompt =
  ScatterIsLocked
| RequestAddNetworkPrompt string network
| UpdateVersionPrompt string network
| ServicePrompt string

text \<open>
  \<open>timeoutLocker\<close> is the timer that \<open>checkAutoLock\<close> set last, while it is pending: the time
  at which it fires.  \<open>clearTimeout\<close> and the firing both end it.  \<open>clock\<close> is the time in
  milliseconds.
\<close>

record bg_state =
  seed :: passphrase
  inactivityInterval :: nat
  timeoutLocker :: "nat option"
  clock :: nat
  storage :: "scatter option"
  notifications :: "prompt list"
  responses :: "response list"

text \<open>
  What the script takes from modules that are not part of src: the vault that
  \<open>StorageService.get\<close> resolves to when nothing is stored, \<open>TimingHelpers.minutes\<close>,
  \<open>ecc.isValidPrivate\<close> and \<open>ecc.sign\<close>, the version of the manifest, and the services of
  \<open>IdentityService\<close>, \<open>Permission\<close>, \<open>Identity\<close> and \<open>SignatureService\<close>.
\<close>

record service_effect =
  svc_prompts :: "prompt list"
  svc_histories :: "(string \<times> event_data) list"
  svc_permissions :: "permission list"
  svc_response :: "response option"

record env =
  placeholder :: scatter
  minutes :: "nat \<Rightarrow> nat"
  isValidPrivate :: "secret \<Rightarrow> bool"
  sign :: "string \<Rightarrow> secret \<Rightarrow> string"
  version :: string
  identityPermission :: "string \<Rightarrow> scatter \<Rightarrow> permission option"
  permission_identity :: "permission \<Rightarrow> keychain_slot \<Rightarrow> identity option"
  asOnlyRequiredFields :: "identity \<Rightarrow> string list \<Rightarrow> network \<Rightarrow> identity"
  permission_checksum :: "string \<Rightarrow> network \<Rightarrow> string \<Rightarrow> string list \<Rightarrow> string"
  identityService :: "string \<Rightarrow> network \<Rightarrow> string list \<Rightarrow> scatter
                        \<Rightarrow> prompt list \<times> (identity option \<times> bool) option"
  signatureService :: "string \<Rightarrow> scatter \<Rightarrow> service_effect"

definition sendResponse :: "response \<Rightarrow> bg_state \<Rightarrow> bg_state" where
  "sendResponse r st = st\<lparr>responses := responses st @ [r]\<rparr>"

definition NotificationService_open :: "prompt \<Rightarrow> bg_state \<Rightarrow> bg_state" where
  "NotificationService_open p st = st\<lparr>notifications := notifications st @ [p]\<rparr>"

definition StorageService_get :: "env \<Rightarrow> bg_state \<Rightarrow> scatter" where
  "StorageService_get e st = (case storage st of None \<Rightarrow> placeholder e | Some s \<Rightarrow> s)"

definition StorageService_save :: "scatter \<Rightarrow> bg_state \<Rightarrow> bg_state" where
  "StorageService_save s st = st\<lparr>storage := Some s\<rparr>"

subsection \<open>The auto-lock timer\<close>

text \<open>
  The delay that the browser's \<open>setTimeout\<close> waits for: it keeps the delay as a signed 32-bit
  integer, so the number of milliseconds is taken modulo \<open>2 ^ 32\<close>, and a delay that is
  negative then counts as 0 (the timer fires at once).
\<close>

definition timerDelay :: "nat \<Rightarrow> nat" where
  "timerDelay ms = (let w = ms mod 2 ^ 32 in if w < 2 ^ 31 then w else 0)"

text \<open>\<open>checkAutoLock\<close>, lines 79 to 83.\<close>

definition checkAutoLock :: "bg_state \<Rightarrow> bg_state" where
  "checkAutoLock st =
     (if inactivityInterval st = 0 then st
      else
        (let st1 = st\<lparr>timeoutLocker := None\<rparr>
         in if seed st1 \<noteq> []
            then st1\<lparr>timeoutLocker := Some (clock st1 + timerDelay (inactivityInterval st1))\<rparr>
            else st1))"

text \<open>
  Time passes for \<open>d\<close> milliseconds with no request: a pending timer whose time has come
  fires, and its callback (line 82) empties the seed.
\<close>

definition idle :: "nat \<Rightarrow> bg_state \<Rightarrow> bg_state" where
  "idle d st =
     (let st1 = st\<lparr>clock := clock st + d\<rparr>
      in case timeoutLocker st1 of
           None \<Rightarrow> st1
         | Some t \<Rightarrow> (if t \<le> clock st1 then st1\<lparr>seed := [], timeoutLocker := None\<rparr> else st1))"

subsection \<open>The handlers\<close>

text \<open>\<open>lockGuard\<close>, lines 380 to 386.\<close>

definition lockGuard :: "(response \<Rightarrow> bg_state \<Rightarrow> bg_state) \<Rightarrow> (bg_state \<Rightarrow> bg_state)
    \<Rightarrow> bg_state \<Rightarrow> bg_state" where
  "lockGuard respond cb st =
     (if seed st = [] then respond (RError Locked) (NotificationService_open ScatterIsLocked st)
      else cb st)"

text \<open>\<open>setSeed\<close>, lines 96 to 99.\<close>

definition setSeed :: "(response \<Rightarrow> bg_state \<Rightarrow> bg_state) \<Rightarrow> passphrase
    \<Rightarrow> bg_state \<Rightarrow> bg_state" where
  "setSeed respond s st = respond (RBool True) (st\<lparr>seed := s\<rparr>)"

text \<open>\<open>isUnlocked\<close>, lines 106 to 119.\<close>

definition isUnlocked :: "env \<Rightarrow> (response \<Rightarrow> bg_state \<Rightarrow> bg_state)
    \<Rightarrow> bg_state \<Rightarrow> bg_state" where
  "isUnlocked e respond st =
     (if seed st \<noteq> [] then
        (case Scatter_decrypt (seed st) (StorageService_get e st) of
           Some s \<Rightarrow> respond (RBool (\<not> isEncrypted s)) st
         | None \<Rightarrow> respond (RBool False) (st\<lparr>seed := []\<rparr>))
      else respond (RBool False) st)"

text \<open>
  \<open>load\<close>, lines 126 to 135.  \<open>loadResolved\<close> is the continuation of lines 127 to 134, run on
  the document that \<open>StorageService.get\<close> has resolved to.  The decryption is not guarded: when
  it throws, the continuation ends before \<open>sendResponse\<close>.
\<close>

definition loadResolved :: "scatter \<Rightarrow> (scatter \<Rightarrow> bg_state \<Rightarrow> bg_state)
    \<Rightarrow> bg_state \<Rightarrow> bg_state" where
  "loadResolved s respond st =
     (let st1 = st\<lparr>inactivityInterval := settings_inactivityInterval (settings s)\<rparr>
      in if seed st1 \<noteq> [] then
           (case Scatter_decrypt (seed st1) s of
              None \<Rightarrow> st1
            | Some s1 \<Rightarrow> respond s1 st1)
         else respond s st1)"

definition load :: "env \<Rightarrow> (scatter \<Rightarrow> bg_state \<Rightarrow> bg_state) \<Rightarrow> bg_state \<Rightarrow> bg_state" where
  "load e respond st = loadResolved (StorageService_get e st) respond st"

text \<open>
  \<open>update\<close>, lines 143 to 159.  \<open>scatter.keychain.keypairs\<close> of a keychain that is a string is
  undefined, and \<open>map\<close> on it throws.
\<close>

definition encryptKeys :: "passphrase \<Rightarrow> keychain \<Rightarrow> keychain" where
  "encryptKeys key kc =
     kc\<lparr>keypairs := map (Keypair_encrypt key) (keypairs kc),
        identities := map (Identity_encrypt key) (identities kc)\<rparr>"

definition update :: "(response \<Rightarrow> bg_state \<Rightarrow> bg_state) \<Rightarrow> scatter
    \<Rightarrow> bg_state \<Rightarrow> bg_state" where
  "update respond s st =
     lockGuard respond
       (\<lambda>st. case keychain s of
                KeychainString k kc \<Rightarrow> st
              | KeychainObject kc \<Rightarrow>
                  (let s1 = s\<lparr>keychain := KeychainObject (encryptKeys (seed st) kc)\<rparr>;
                       s2 = Scatter_encrypt (seed st) s1;
                       st1 = StorageService_save s2 st
                   in case Scatter_decrypt (seed st1) s2 of
                        None \<Rightarrow> st1
                      | Some s3 \<Rightarrow> respond (RScatter s3) st1))
       st"

text \<open>
  \<open>publicToPrivate\<close>, lines 167 to 175.  Neither decryption is guarded: when one throws, the
  continuation ends before \<open>sendResponse\<close>.
\<close>

definition publicToPrivate :: "env \<Rightarrow> (response \<Rightarrow> bg_state \<Rightarrow> bg_state) \<Rightarrow> string
    \<Rightarrow> bg_state \<Rightarrow> bg_state" where
  "publicToPrivate e respond publicKey st =
     lockGuard respond
       (\<lambda>st. case Scatter_decrypt (seed st) (StorageService_get e st) of
                None \<Rightarrow> st
              | Some s \<Rightarrow>
                  (case keychain s of
                     KeychainString k kc \<Rightarrow> st
                   | KeychainObject kc \<Rightarrow>
                       (case find (\<lambda>x. kp_publicKey x = publicKey) (keypairs kc) of
                          None \<Rightarrow> respond RNull st
                        | Some keypair \<Rightarrow>
                            (case AES_decrypt (kp_privateKey keypair) (seed st) of
                               None \<Rightarrow> st
                             | Some k \<Rightarrow> respond (RSecret k) st))))
       st"

text \<open>\<open>destroy\<close>, lines 181 to 189.\<close>

definition destroy :: "(response \<Rightarrow> bg_state \<Rightarrow> bg_state) \<Rightarrow> bg_state \<Rightarrow> bg_state" where
  "destroy respond st =
     lockGuard respond (\<lambda>st. respond (RBool True) (st\<lparr>seed := [], storage := None\<rparr>)) st"

text \<open>\<open>setTimeout\<close>, lines 196 to 204.\<close>

definition setTimeout :: "env \<Rightarrow> (response \<Rightarrow> bg_state \<Rightarrow> bg_state) \<Rightarrow> nat
    \<Rightarrow> bg_state \<Rightarrow> bg_state" where
  "setTimeout e respond timeoutMinutes st =
     respond (RBool True)
       (load e
          (\<lambda>s st.
             (let st1 = st\<lparr>inactivityInterval := minutes e timeoutMinutes\<rparr>;
                  s1 = s\<lparr>settings :=
                         (settings s)\<lparr>settings_inactivityInterval := inactivityInterval st1\<rparr>\<rparr>
              in update (\<lambda>r st. st) s1 st1))
          st)"

text \<open>
  \<open>identityFromPermissions\<close>, lines 222 to 238.  It is not behind \<open>lockGuard\<close>: with no seed
  it answers null at once.
\<close>

definition identityFromPermissions :: "env \<Rightarrow> (response \<Rightarrow> bg_state \<Rightarrow> bg_state) \<Rightarrow> string
    \<Rightarrow> bg_state \<Rightarrow> bg_state" where
  "identityFromPermissions e respond domain st =
     (if seed st = [] then respond RNull st
      else
        load e
          (\<lambda>s st.
             case identityPermission e domain s of
               None \<Rightarrow> respond RNull st
             | Some permission \<Rightarrow>
                 (case permission_identity e permission (keychain s) of
                    None \<Rightarrow> st
                  | Some i \<Rightarrow>
                      respond
                        (RIdentity
                           (asOnlyRequiredFields e i (perm_fields permission)
                              (perm_network permission)))
                        st))
          st)"

text \<open>
  \<open>addHistory\<close>, lines 395 to 400.  \<open>historyAdded\<close> is the callback of lines 396 to 399.  The
  new event carries the time of its creation.
\<close>

definition historyAdded :: "string \<Rightarrow> event_data \<Rightarrow> scatter \<Rightarrow> bg_state \<Rightarrow> bg_state" where
  "historyAdded type data s st =
     update (\<lambda>r st. st)
       (s\<lparr>histories :=
            \<lparr>ev_type = type, ev_data = data, ev_timestamp = clock st\<rparr> # histories s\<rparr>)
       st"

definition addHistory :: "env \<Rightarrow> string \<Rightarrow> event_data \<Rightarrow> bg_state \<Rightarrow> bg_state" where
  "addHistory e type data st = load e (historyAdded type data) st"

text \<open>
  \<open>addPermissions\<close>, lines 406 to 414.  \<open>unshiftNew\<close> is the loop of lines 408 to 411: each
  permission is tested against the keychain as the earlier ones left it.  \<open>permissionsAdded\<close>
  is the callback of lines 407 to 413.  On a keychain that is a string \<open>hasPermission\<close> is no
  function, and the first call throws.
\<close>

fun unshiftNew :: "permission list \<Rightarrow> keychain \<Rightarrow> keychain" where
  "unshiftNew [] kc = kc"
| "unshiftNew (p # ps) kc =
     unshiftNew ps
       (if \<not> hasPermission (checksum p) (perm_fields p) kc
        then kc\<lparr>permissions := p # permissions kc\<rparr>
        else kc)"

definition permissionsAdded :: "permission list \<Rightarrow> scatter \<Rightarrow> bg_state \<Rightarrow> bg_state" where
  "permissionsAdded ps s st =
     (case keychain s of
        KeychainObject kc \<Rightarrow>
          update (\<lambda>r st. st) (s\<lparr>keychain := KeychainObject (unshiftNew ps kc)\<rparr>) st
      | KeychainString k kc \<Rightarrow> (if ps = [] then update (\<lambda>r st. st) s st else st))"

definition addPermissions :: "env \<Rightarrow> permission list \<Rightarrow> bg_state \<Rightarrow> bg_state" where
  "addPermissions e ps st = load e (permissionsAdded ps) st"

text \<open>
  \<open>getOrRequestIdentity\<close>, lines 245 to 279.  \<open>identityService\<close> stands for
  \<open>IdentityService.getOrRequestIdentity\<close>: the prompts it opens and the arguments it calls the
  callback of line 251 with, if it calls it.  The checksum of the new permission is the one
  that \<open>Permission.fromJson\<close> derives from domain, network, public key and fields.
  \<open>addHistory\<close> (line 258) and \<open>addPermissions\<close> (line 266) each call \<open>StorageService.get\<close>
  before either continuation runs, so both continuations work on the document stored then:
  what \<open>addPermissions\<close> saves replaces what \<open>addHistory\<close> has saved.
\<close>

definition getOrRequestIdentity :: "env \<Rightarrow> (response \<Rightarrow> bg_state \<Rightarrow> bg_state) \<Rightarrow> string
    \<Rightarrow> network \<Rightarrow> string list \<Rightarrow> bg_state \<Rightarrow> bg_state" where
  "getOrRequestIdentity e respond domain network fs st =
     lockGuard respond
       (load e
          (\<lambda>s st.
             (let called = identityService e domain network fs s;
                  st1 = fold NotificationService_open (fst called) st
              in case snd called of
                   None \<Rightarrow> st1
                 | Some (None, fromPermission) \<Rightarrow>
                     respond
                       (RError (SignatureError ''identity_rejected''
                          ''User rejected the provision of an Identity''))
                       st1
                 | Some (Some i, fromPermission) \<Rightarrow>
                     (let stored = StorageService_get e st1;
                          st2 =
                        (if \<not> fromPermission then
                           loadResolved stored
                             (permissionsAdded
                                [\<lparr>perm_domain = domain, perm_network = network,
                                  perm_publicKey = id_publicKey i, perm_fields = fs,
                                  perm_timestamp = clock st1,
                                  checksum =
                                    permission_checksum e domain network (id_publicKey i) fs\<rparr>])
                             (loadResolved stored
                                (historyAdded ''PROVIDED_IDENTITY''
                                   (ProvidedIdentity domain network True (id_name i)
                                      (id_publicKey i)))
                                st1)
                         else st1)
                      in respond (RIdentity i) st2))))
       st"

text \<open>\<open>authenticate\<close>, lines 287 to 305.\<close>

definition authenticate :: "env \<Rightarrow> (response \<Rightarrow> bg_state \<Rightarrow> bg_state) \<Rightarrow> string \<Rightarrow> string
    \<Rightarrow> bg_state \<Rightarrow> bg_state" where
  "authenticate e respond publicKey domain st =
     lockGuard respond
       (load e
          (\<lambda>s st.
             case keychain s of
               KeychainString k kc \<Rightarrow> st
             | KeychainObject kc \<Rightarrow>
                 (case findIdentity publicKey kc of
                    None \<Rightarrow> respond (RError IdentityMissing) st
                  | Some found \<Rightarrow>
                      (case Identity_decrypt (seed st) found of
                         None \<Rightarrow> st
                       | Some i \<Rightarrow>
                           (if \<not> isValidPrivate e (id_privateKey i)
                            then respond (RError MaliciousEvent) st
                            else respond (RSignature (sign e domain (id_privateKey i))) st)))))
       st"

text \<open>
  Modelled from the spec: \<open>SignatureService.requestSignature\<close> (services/SignatureService.js is
  not part of src).  What it does to this script is what the spec says of it: it may open an
  approval prompt, record historic events and grant permissions through the \<open>Background\<close> it
  is given, and answer the request.  \<open>signatureService\<close> chooses among these.
\<close>

definition SignatureService_requestSignature :: "env \<Rightarrow> string \<Rightarrow> scatter
    \<Rightarrow> (response \<Rightarrow> bg_state \<Rightarrow> bg_state) \<Rightarrow> bg_state \<Rightarrow> bg_state" where
  "SignatureService_requestSignature e payload s respond st =
     (let eff = signatureService e payload s;
          st1 = fold NotificationService_open (svc_prompts eff) st;
          st2 = fold (\<lambda>h. addHistory e (fst h) (snd h)) (svc_histories eff) st1;
          st3 = (if svc_permissions eff = [] then st2
                 else addPermissions e (svc_permissions eff) st2)
      in case svc_response eff of None \<Rightarrow> st3 | Some r \<Rightarrow> respond r st3)"

text \<open>\<open>requestSignature\<close>, lines 312 to 318.\<close>

definition requestSignature :: "env \<Rightarrow> (response \<Rightarrow> bg_state \<Rightarrow> bg_state) \<Rightarrow> string
    \<Rightarrow> bg_state \<Rightarrow> bg_state" where
  "requestSignature e respond payload st =
     lockGuard respond
       (load e (\<lambda>s st. SignatureService_requestSignature e payload s respond st))
       st"

text \<open>
  \<open>requestAddNetwork\<close>, lines 325 to 345.  \<open>answer\<close> is what the user answers to the prompt of
  line 335 (\<open>None\<close>: the prompt is never answered); the handler reads it only after it has
  opened the prompt.
\<close>

definition requestAddNetwork :: "env \<Rightarrow> (response \<Rightarrow> bg_state \<Rightarrow> bg_state) \<Rightarrow> string
    \<Rightarrow> network \<Rightarrow> decision option \<Rightarrow> bg_state \<Rightarrow> bg_state" where
  "requestAddNetwork e respond domain network answer st =
     lockGuard respond
       (load e
          (\<lambda>s st.
             if find (\<lambda>n. unique n = unique network) (networks (settings s)) \<noteq> None
             then respond (RBool True) st
             else
               (let st1 = NotificationService_open (RequestAddNetworkPrompt domain network) st
                in case answer of
                     None \<Rightarrow> st1
                   | Some approved \<Rightarrow>
                       (if approved = Declined \<or> isError approved
                        then respond (RDecision approved) st1
                        else
                          update (\<lambda>r. respond (RDecision approved))
                            (s\<lparr>settings :=
                                 (settings s)\<lparr>networks := network # networks (settings s)\<rparr>\<rparr>)
                            st1))))
       st"

text \<open>\<open>requestGetVersion\<close> and \<open>requestVersionUpdate\<close>, lines 351 to 364.\<close>

definition requestGetVersion :: "env \<Rightarrow> (response \<Rightarrow> bg_state \<Rightarrow> bg_state)
    \<Rightarrow> bg_state \<Rightarrow> bg_state" where
  "requestGetVersion e respond st = respond (RVersion (version e)) st"

definition requestVersionUpdate :: "(response \<Rightarrow> bg_state \<Rightarrow> bg_state) \<Rightarrow> string
    \<Rightarrow> bg_state \<Rightarrow> bg_state" where
  "requestVersionUpdate respond domain st =
     NotificationService_open (UpdateVersionPrompt domain \<lparr>host = [], port = 0\<rparr>) st"

subsection \<open>The dispatcher\<close>

datatype message =
  SET_SEED passphrase
| SET_TIMEOUT nat
| IS_UNLOCKED
| LOAD
| UPDATE scatter
| PUB_TO_PRIV string
| DESTROY
| IDENTITY_FROM_PERMISSIONS string
| GET_OR_REQUEST_IDENTITY string network "string list"
| REQUEST_SIGNATURE string
| REQUEST_ADD_NETWORK string network "decision option"
| REQUEST_GET_VERSION
| REQUEST_VERSION_UPDATE string
| AUTHENTICATE string string
| UNKNOWN

text \<open>\<open>dispenseMessage\<close>, lines 58 to 76.  A type with no case of the switch does nothing.\<close>

definition dispenseMessage :: "env \<Rightarrow> (response \<Rightarrow> bg_state \<Rightarrow> bg_state) \<Rightarrow> message
    \<Rightarrow> bg_state \<Rightarrow> bg_state" where
  "dispenseMessage e respond m st0 =
     (let st = checkAutoLock st0
      in case m of
           SET_SEED s \<Rightarrow> setSeed respond s st
         | SET_TIMEOUT n \<Rightarrow> setTimeout e respond n st
         | IS_UNLOCKED \<Rightarrow> isUnlocked e respond st
         | LOAD \<Rightarrow> load e (\<lambda>s. respond (RScatter s)) st
         | UPDATE s \<Rightarrow> update respond s st
         | PUB_TO_PRIV k \<Rightarrow> publicToPrivate e respond k st
         | DESTROY \<Rightarrow> destroy respond st
         | IDENTITY_FROM_PERMISSIONS d \<Rightarrow> identityFromPermissions e respond d st
         | GET_OR_REQUEST_IDENTITY d n fs \<Rightarrow> getOrRequestIdentity e respond d n fs st
         | REQUEST_SIGNATURE p \<Rightarrow> requestSignature e respond p st
         | REQUEST_ADD_NETWORK d n a \<Rightarrow> requestAddNetwork e respond d n a st
         | REQUEST_GET_VERSION \<Rightarrow> requestGetVersion e respond st
         | REQUEST_VERSION_UPDATE d \<Rightarrow> requestVersionUpdate respond d st
         | AUTHENTICATE k d \<Rightarrow> authenticate e respond k d st
         | UNKNOWN \<Rightarrow> st)"

text \<open>
  What happens to the script: a request arrives on the stream and is answered there, or time
  passes.
\<close>

datatype event = Request message | Idle nat

fun step :: "env \<Rightarrow> event \<Rightarrow> bg_state \<Rightarrow> bg_state" where
  "step e (Request m) st = dispenseMessage e sendResponse m st"
| "step e (Idle d) st = idle d st"

fun run :: "env \<Rightarrow> event list \<Rightarrow> bg_state \<Rightarrow> bg_state" where
  "run e [] st = st"
| "run e (ev # evs) st = run e evs (step e ev st)"

subsection \<open>Notions used in the statements\<close>

text \<open>The messages whose handler runs behind \<open>lockGuard\<close>.\<close>

fun privileged :: "message \<Rightarrow> bool" where
  "privileged (UPDATE s) = True"
| "privileged (PUB_TO_PRIV k) = True"
| "privileged DESTROY = True"
| "privileged (GET_OR_REQUEST_IDENTITY d n fs) = True"
| "privileged (REQUEST_SIGNATURE p) = True"
| "privileged (REQUEST_ADD_NETWORK d n a) = True"
| "privileged (AUTHENTICATE k d) = True"
| "privileged m = False"

text \<open>A request that sets a passphrase which is not empty.\<close>

fun setsPassphrase :: "event \<Rightarrow> bool" where
  "setsPassphrase (Request (SET_SEED s)) = (s \<noteq> [])"
| "setsPassphrase ev = False"

text \<open>The permissions of the stored vault's keychain, encrypted or not.\<close>

definition storedPermissions :: "bg_state \<Rightarrow> permission list" where
  "storedPermissions st =
     (case storage st of
        None \<Rightarrow> []
      | Some s \<Rightarrow>
          (case keychain s of
             KeychainObject kc \<Rightarrow> permissions kc
           | KeychainString k kc \<Rightarrow> permissions kc))"

text \<open>The number of permissions with a checksum.\<close>

definition entriesWith :: "string \<Rightarrow> permission list \<Rightarrow> nat" where
  "entriesWith c ps = length (filter (\<lambda>p. checksum p = c) ps)"

text \<open>
  The session holds a passphrase and the stored vault is document-encrypted under it.
\<close>

definition sealedUnderSeed :: "bg_state \<Rightarrow> bool" where
  "sealedUnderSeed st =
     (seed st \<noteq> [] \<and>
      (case storage st of
         None \<Rightarrow> False
       | Some s \<Rightarrow>
           (case keychain s of
              KeychainObject kc \<Rightarrow> False
            | KeychainString k kc \<Rightarrow> k = seed st)))"

subsection \<open>A concrete installation\<close>

definition mainnet :: network where
  "mainnet = \<lparr>host = ''mainnet.eos.io'', port = 443\<rparr>"

definition testnet :: network where
  "testnet = \<lparr>host = ''testnet.eos.io'', port = 8888\<rparr>"

definition keychain1 :: keychain where
  "keychain1 =
     \<lparr>keypairs = [\<lparr>kp_publicKey = ''A'', kp_privateKey = Cipher ''correct-seed'' (Plain ''5Kab'')\<rparr>],
      identities =
        [\<lparr>id_name = ''alice'', id_publicKey = ''A'',
          id_privateKey = Cipher ''correct-seed'' (Plain ''5Kab''), id_fields = []\<rparr>,
         \<lparr>id_name = ''mallory'', id_publicKey = ''M'',
          id_privateKey = Cipher ''correct-seed'' (Plain ''junk''), id_fields = []\<rparr>],
      permissions = []\<rparr>"

definition vault1 :: scatter where
  "vault1 =
     \<lparr>settings = \<lparr>settings_inactivityInterval = 0, networks = [mainnet]\<rparr>,
      keychain = KeychainString ''correct-seed'' keychain1,
      histories = []\<rparr>"

definition grant1 :: permission where
  "grant1 =
     \<lparr>perm_domain = ''app.example'', perm_network = mainnet, perm_publicKey = ''A'',
      perm_fields = [], perm_timestamp = 10, checksum = ''c1''\<rparr>"

definition env1 :: env where
  "env1 =
     \<lparr>placeholder =
        \<lparr>settings = \<lparr>settings_inactivityInterval = 0, networks = []\<rparr>,
         keychain = KeychainObject \<lparr>keypairs = [], identities = [], permissions = []\<rparr>,
         histories = []\<rparr>,
      minutes = (\<lambda>n. n * 60000),
      isValidPrivate = (\<lambda>k. case k of Plain s \<Rightarrow> take 1 s = ''5'' | Cipher p c \<Rightarrow> False),
      sign = (\<lambda>d k. ''SIG('' @ d @ '')''),
      version = ''1.0.0'',
      identityPermission =
        (\<lambda>d s. case keychain s of
                  KeychainObject kc \<Rightarrow> find (\<lambda>p. perm_domain p = d) (permissions kc)
                | KeychainString k kc \<Rightarrow> None),
      permission_identity =
        (\<lambda>p slot. case slot of
                     KeychainObject kc \<Rightarrow> findIdentity (perm_publicKey p) kc
                   | KeychainString k kc \<Rightarrow> None),
      asOnlyRequiredFields = (\<lambda>i fs n. i\<lparr>id_privateKey := Plain []\<rparr>),
      permission_checksum = (\<lambda>d n k fs. d @ host n @ k),
      identityService = (\<lambda>d n fs s. ([], None)),
      signatureService =
        (\<lambda>p s. \<lparr>svc_prompts = [], svc_histories = [], svc_permissions = [],
                 svc_response = None\<rparr>)\<rparr>"

text \<open>The keychain and the vault before any encryption, as a caller hands them to \<open>update\<close>.\<close>

definition clearKeychain :: keychain where
  "clearKeychain =
     \<lparr>keypairs = [\<lparr>kp_publicKey = ''A'', kp_privateKey = Plain ''5Kab''\<rparr>],
      identities =
        [\<lparr>id_name = ''alice'', id_publicKey = ''A'', id_privateKey = Plain ''5Kab'',
          id_fields = []\<rparr>,
         \<lparr>id_name = ''mallory'', id_publicKey = ''M'', id_privateKey = Plain ''junk'',
          id_fields = []\<rparr>],
      permissions = []\<rparr>"

definition clearVault :: scatter where
  "clearVault =
     \<lparr>settings = \<lparr>settings_inactivityInterval = 0, networks = [mainnet]\<rparr>,
      keychain = KeychainObject clearKeychain,
      histories = []\<rparr>"

text \<open>The session after start (no passphrase), with the right and with a wrong passphrase.\<close>

definition lockedState :: bg_state where
  "lockedState =
     \<lparr>seed = [], inactivityInterval = 0, timeoutLocker = None, clock = 0,
      storage = Some vault1, notifications = [], responses = []\<rparr>"

definition unlockedState :: bg_state where
  "unlockedState = lockedState\<lparr>seed := ''correct-seed''\<rparr>"

definition mistakenState :: bg_state where
  "mistakenState = lockedState\<lparr>seed := ''wrong-seed''\<rparr>"

section \<open>Properties\<close>

subsection \<open>Auxiliary facts\<close>

lemma find_by_key: "(find (\<lambda>x. f x = k) xs \<noteq> None) = (k \<in> f ` set xs)"
  by (induction xs) auto

lemma Scatter_decrypt_settings:
  "Scatter_decrypt k s0 = Some s \<Longrightarrow> settings s = settings s0 \<and> histories s = histories s0"
  by (auto simp: Scatter_decrypt_def split: keychain_slot.splits if_splits)

lemma privileged_locked:
  assumes "seed st = []" and "privileged m"
  shows "dispenseMessage e sendResponse m st =
     (checkAutoLock st)\<lparr>notifications := notifications st @ [ScatterIsLocked],
                        responses := responses st @ [RError Locked]\<rparr>"
  using assms
  by (cases m) (simp_all add: dispenseMessage_def Let_def update_def publicToPrivate_def
     destroy_def getOrRequestIdentity_def requestSignature_def requestAddNetwork_def
     authenticate_def lockGuard_def checkAutoLock_def sendResponse_def
     NotificationService_open_def)

lemma locked_stays_locked:
  assumes "seed st = []" and "\<not> setsPassphrase ev"
  shows "seed (step e ev st) = []"
proof (cases ev)
  case (Idle d)
  with assms show ?thesis by (simp add: idle_def Let_def split: option.splits)
next
  case (Request m)
  show ?thesis
  proof (cases "privileged m")
    case True
    with privileged_locked [OF assms(1) True, of e] Request assms(1) show ?thesis
      by (simp add: checkAutoLock_def Let_def)
  next
    case False
    with Request assms show ?thesis
      by (cases m) (simp_all add: dispenseMessage_def Let_def setSeed_def setTimeout_def
        isUnlocked_def load_def loadResolved_def update_def identityFromPermissions_def requestGetVersion_def
        requestVersionUpdate_def lockGuard_def checkAutoLock_def sendResponse_def
        NotificationService_open_def)
  qed
qed

lemma locked_run:
  "seed st = [] \<Longrightarrow> \<forall>ev \<in> set evs. \<not> setsPassphrase ev \<Longrightarrow> seed (run e evs st) = []"
proof (induction evs arbitrary: st)
  case Nil
  then show ?case by simp
next
  case (Cons ev evs)
  then show ?case using locked_stays_locked [of st ev e] by simp
qed

lemma unlocked_reads_vault1:
  "Scatter_decrypt (seed unlockedState) (StorageService_get env1 unlockedState) =
     Some (vault1\<lparr>keychain := KeychainObject keychain1\<rparr>)"
  by (simp add: unlockedState_def lockedState_def StorageService_get_def Scatter_decrypt_def
      vault1_def)

lemma encryptKeys_clear: "encryptKeys ''correct-seed'' clearKeychain = keychain1"
  by (simp add: encryptKeys_def clearKeychain_def keychain1_def Keypair_encrypt_def
      Identity_encrypt_def AES_encrypt_def)

lemma encryptKeys_privateKeys:
  "map kp_privateKey (keypairs (encryptKeys key kc)) =
     map (\<lambda>kp. if isCipher (kp_privateKey kp) then kp_privateKey kp
               else AES_encrypt (kp_privateKey kp) key) (keypairs kc)"
  "map id_privateKey (identities (encryptKeys key kc)) =
     map (\<lambda>i. if isCipher (id_privateKey i) then id_privateKey i
              else AES_encrypt (id_privateKey i) key) (identities kc)"
  by (simp_all add: encryptKeys_def Keypair_encrypt_def Identity_encrypt_def comp_def)

lemma encryptKeys_all_cipher:
  "list_all (\<lambda>kp. isCipher (kp_privateKey kp)) (keypairs (encryptKeys key kc))"
  "list_all (\<lambda>i. isCipher (id_privateKey i)) (identities (encryptKeys key kc))"
  by (auto simp: list_all_iff encryptKeys_def Keypair_encrypt_def Identity_encrypt_def
      AES_encrypt_def)

lemma encryptKeys_sealed: "encryptKeys key keychain1 = keychain1"
  by (simp add: encryptKeys_def keychain1_def Keypair_encrypt_def Identity_encrypt_def)

lemma timerDelay_five_minutes: "timerDelay 300000 = 300000"
  by (simp add: timerDelay_def)

lemma no_permission_yet:
  "identityPermission env1 ''app.example'' (vault1\<lparr>keychain := KeychainObject keychain1\<rparr>) = None"
  by (simp add: env1_def keychain1_def)

lemma networks_vault1:
  "networks (settings (vault1\<lparr>keychain := KeychainObject keychain1\<rparr>)) = [mainnet]"
  "unique testnet \<noteq> unique mainnet"
  "settings_inactivityInterval (settings (vault1\<lparr>keychain := KeychainObject keychain1\<rparr>)) = 0"
  by (simp_all add: vault1_def unique_def testnet_def mainnet_def)

text \<open>Granting permissions: the loop of \<open>addPermissions\<close> and what it stores.\<close>

lemma permissions_encryptKeys: "permissions (encryptKeys k kc) = permissions kc"
  by (simp add: encryptKeys_def)

lemma hasPermission_iff:
  "hasPermission c fs kc = (c \<in> checksum ` set (permissions kc))"
  unfolding hasPermission_def by (rule find_by_key)

lemma entriesWith_zero: "(entriesWith c ps = 0) = (c \<notin> checksum ` set ps)"
  by (auto simp: entriesWith_def filter_empty_conv)

lemma entriesWith_Cons:
  "entriesWith c (p # ps) =
     (if checksum p = c then Suc (entriesWith c ps) else entriesWith c ps)"
  by (simp add: entriesWith_def)

lemma entriesWith_Nil: "entriesWith c [] = 0"
  by (simp add: entriesWith_def)

lemma entriesWith_unique:
  "distinct (map checksum ps) \<Longrightarrow> entriesWith c ps \<le> 1"
  by (induction ps) (auto simp: entriesWith_Cons entriesWith_Nil entriesWith_zero)

lemma unshiftNew_entries:
  "entriesWith c (permissions (unshiftNew ps kc)) =
     (if entriesWith c (permissions kc) = 0 \<and> c \<in> checksum ` set ps then 1
      else entriesWith c (permissions kc))"
proof (induction ps arbitrary: kc)
  case Nil
  then show ?case by simp
next
  case (Cons p ps)
  show ?case
    by (simp add: Cons.IH hasPermission_iff entriesWith_Cons entriesWith_zero)
qed

lemma unshiftNew_distinct:
  "distinct (map checksum (permissions kc)) \<Longrightarrow>
     distinct (map checksum (permissions (unshiftNew ps kc)))"
  by (induction ps arbitrary: kc) (simp_all add: hasPermission_iff)

lemma addPermissions_sealed:
  assumes "seed st \<noteq> []" and "storage st = Some s0"
    and "keychain s0 = KeychainString (seed st) kc0"
  shows "addPermissions e ps st =
     st\<lparr>inactivityInterval := settings_inactivityInterval (settings s0),
        storage := Some (s0\<lparr>keychain :=
          KeychainString (seed st) (encryptKeys (seed st) (unshiftNew ps kc0))\<rparr>)\<rparr>"
  using assms
  by (simp add: addPermissions_def permissionsAdded_def load_def loadResolved_def update_def
      lockGuard_def StorageService_get_def
      StorageService_save_def Scatter_encrypt_def Scatter_decrypt_def Let_def)

lemma sealed_cases:
  assumes "sealedUnderSeed st"
  obtains s0 kc0 where "seed st \<noteq> []" and "storage st = Some s0"
    and "keychain s0 = KeychainString (seed st) kc0"
  using assms
  by (auto simp: sealedUnderSeed_def split: option.splits keychain_slot.splits)

lemma addPermissions_stored:
  assumes "sealedUnderSeed st"
  shows "sealedUnderSeed (addPermissions e ps st)"
    and "\<exists>kc. permissions kc = storedPermissions st
           \<and> storedPermissions (addPermissions e ps st) = permissions (unshiftNew ps kc)"
proof -
  from assms obtain s0 kc0 where h: "seed st \<noteq> []" "storage st = Some s0"
      "keychain s0 = KeychainString (seed st) kc0"
    by (rule sealed_cases)
  note eq = addPermissions_sealed [OF h, of e ps]
  show "sealedUnderSeed (addPermissions e ps st)"
    using h by (simp add: eq sealedUnderSeed_def)
  have "permissions kc0 = storedPermissions st"
    using h by (simp add: storedPermissions_def)
  moreover have "storedPermissions (addPermissions e ps st) = permissions (unshiftNew ps kc0)"
    by (simp add: eq storedPermissions_def permissions_encryptKeys)
  ultimately show "\<exists>kc. permissions kc = storedPermissions st
           \<and> storedPermissions (addPermissions e ps st) = permissions (unshiftNew ps kc)"
    by blast
qed

lemma grants_keep_unique:
  "sealedUnderSeed st \<Longrightarrow> distinct (map checksum (storedPermissions st)) \<Longrightarrow>
     sealedUnderSeed (fold (addPermissions e) grants st)
     \<and> distinct (map checksum (storedPermissions (fold (addPermissions e) grants st)))"
proof (induction grants arbitrary: st)
  case Nil
  then show ?case by simp
next
  case (Cons ps grants)
  from addPermissions_stored(2) [OF Cons.prems(1), of e ps]
  obtain kc where kc: "permissions kc = storedPermissions st"
    "storedPermissions (addPermissions e ps st) = permissions (unshiftNew ps kc)"
    by blast
  have "distinct (map checksum (storedPermissions (addPermissions e ps st)))"
    using unshiftNew_distinct [of kc ps] Cons.prems(2) kc by simp
  with Cons.IH [OF addPermissions_stored(1) [OF Cons.prems(1)]] show ?case
    by simp
qed

lemma sealed_unlockedState: "sealedUnderSeed unlockedState"
  by (simp add: sealedUnderSeed_def unlockedState_def lockedState_def vault1_def)

lemma granted_once:
  "storedPermissions unlockedState = []"
  "storedPermissions (addPermissions env1 [grant1] unlockedState) = [grant1]"
  by (simp_all add: storedPermissions_def addPermissions_def permissionsAdded_def load_def
      loadResolved_def update_def lockGuard_def
      StorageService_get_def StorageService_save_def Scatter_encrypt_def Scatter_decrypt_def
      Let_def unlockedState_def lockedState_def vault1_def keychain1_def hasPermission_def
      encryptKeys_def)

lemma granted_checksums:
  "checksum grant1 = ''c1''" "checksum (grant1\<lparr>perm_timestamp := 20\<rparr>) = ''c1''"
  "entriesWith ''c1'' [] = 0" "entriesWith ''c1'' [grant1] = 1"
  by (simp_all add: grant1_def entriesWith_def)

text \<open>Two runs of the concrete installation.\<close>

lemma minutes_env1: "minutes env1 n = n * 60000"
  by (simp add: env1_def)

lemma pending_after_disabling:
  "run env1 [Request (SET_TIMEOUT 5), Request IS_UNLOCKED, Request (SET_TIMEOUT 0)] unlockedState =
     unlockedState\<lparr>timeoutLocker := Some 300000,
       responses := [RBool True, RBool True, RBool True]\<rparr>"
  by (simp add: unlockedState_def lockedState_def dispenseMessage_def checkAutoLock_def
      setTimeout_def update_def lockGuard_def StorageService_save_def Scatter_encrypt_def
      isUnlocked_def load_def loadResolved_def sendResponse_def StorageService_get_def
      Scatter_decrypt_def isEncrypted_def vault1_def Let_def minutes_env1 encryptKeys_sealed
      timerDelay_five_minutes)

subsection \<open>The lock guard\<close>

text \<open>
  C2.  With no passphrase held, each of the seven guarded requests (update, publicToPrivate,
  destroy, getOrRequestIdentity, authenticate, requestSignature, requestAddNetwork) is answered
  with the \<open>locked\<close> error and a lock notice goes to the prompt collaborator.  Nothing else
  happens after \<open>checkAutoLock\<close>: the stored vault, the seed and the inactivity interval (which
  a load would have synchronised) are as before.
\<close>

theorem locked_rejects_privileged:
  assumes "seed st = []" and "privileged m"
  shows "dispenseMessage e sendResponse m st =
     (checkAutoLock st)\<lparr>notifications := notifications st @ [ScatterIsLocked],
                        responses := responses st @ [RError Locked]\<rparr>
     \<and> storage (dispenseMessage e sendResponse m st) = storage st
     \<and> seed (dispenseMessage e sendResponse m st) = []
     \<and> inactivityInterval (dispenseMessage e sendResponse m st) = inactivityInterval st"
  using privileged_locked [OF assms] assms(1) by (simp add: checkAutoLock_def Let_def)

theorem locked_rejects_privileged_witness:
  "seed lockedState = [] \<and> privileged (PUB_TO_PRIV ''A'')
   \<and> dispenseMessage env1 sendResponse (PUB_TO_PRIV ''A'') lockedState =
       lockedState\<lparr>notifications := [ScatterIsLocked], responses := [RError Locked]\<rparr>"
  using locked_rejects_privileged [of lockedState "PUB_TO_PRIV ''A''" env1]
  by (simp add: lockedState_def checkAutoLock_def)

subsection \<open>The update cycle\<close>

text \<open>
  C3, as the code has it.  Under a held passphrase, \<open>update\<close> of a vault whose keychain is an
  object field-encrypts the private key of every keypair and of every identity with the
  passphrase (a key that is encrypted already is left as it is), then document-encrypts the
  vault with it, then hands that document to the storage adapter, then decrypts it and returns
  it.  Document encryption covers the keychain: the keychain of what is stored is a cipher
  string under the passphrase, and the settings are stored as the caller gave them.  What is
  returned is the stored document decrypted, its private keys still field-encrypted.
\<close>

theorem update_cycle:
  assumes "seed st \<noteq> []" and "keychain s = KeychainObject kc"
  shows "(let fieldEncrypted = s\<lparr>keychain := KeychainObject (encryptKeys (seed st) kc)\<rparr>;
              persisted = Scatter_encrypt (seed st) fieldEncrypted
          in update sendResponse s st =
               st\<lparr>storage := Some persisted, responses := responses st @ [RScatter fieldEncrypted]\<rparr>
             \<and> keychain persisted = KeychainString (seed st) (encryptKeys (seed st) kc)
             \<and> isEncrypted persisted
             \<and> settings persisted = settings s
             \<and> Scatter_decrypt (seed st) persisted = Some fieldEncrypted
             \<and> map kp_privateKey (keypairs (encryptKeys (seed st) kc)) =
                 map (\<lambda>kp. if isCipher (kp_privateKey kp) then kp_privateKey kp
                           else AES_encrypt (kp_privateKey kp) (seed st)) (keypairs kc)
             \<and> map id_privateKey (identities (encryptKeys (seed st) kc)) =
                 map (\<lambda>i. if isCipher (id_privateKey i) then id_privateKey i
                          else AES_encrypt (id_privateKey i) (seed st)) (identities kc)
             \<and> list_all (\<lambda>kp. isCipher (kp_privateKey kp)) (keypairs (encryptKeys (seed st) kc))
             \<and> list_all (\<lambda>i. isCipher (id_privateKey i)) (identities (encryptKeys (seed st) kc)))"
  using assms
  by (simp add: Let_def update_def lockGuard_def Scatter_encrypt_def Scatter_decrypt_def
      StorageService_save_def sendResponse_def isEncrypted_def encryptKeys_privateKeys
      encryptKeys_all_cipher)

theorem update_cycle_witness:
  "seed unlockedState \<noteq> [] \<and> keychain clearVault = KeychainObject clearKeychain
   \<and> update sendResponse clearVault (unlockedState\<lparr>storage := None\<rparr>) =
       unlockedState\<lparr>storage := Some vault1,
                     responses := [RScatter (vault1\<lparr>keychain := KeychainObject keychain1\<rparr>)]\<rparr>
   \<and> keychain (vault1\<lparr>keychain := KeychainObject keychain1\<rparr>) = KeychainObject keychain1
   \<and> update sendResponse (vault1\<lparr>keychain := KeychainObject keychain1\<rparr>)
        (unlockedState\<lparr>storage := None\<rparr>) =
       unlockedState\<lparr>storage := Some vault1,
                     responses := [RScatter (vault1\<lparr>keychain := KeychainObject keychain1\<rparr>)]\<rparr>
   \<and> isEncrypted vault1
   \<and> map kp_privateKey (keypairs keychain1) = [Cipher ''correct-seed'' (Plain ''5Kab'')]"
  using update_cycle [of "unlockedState\<lparr>storage := None\<rparr>" clearVault clearKeychain]
    update_cycle [of "unlockedState\<lparr>storage := None\<rparr>"
      "vault1\<lparr>keychain := KeychainObject keychain1\<rparr>" keychain1]
  by (simp add: Let_def unlockedState_def lockedState_def clearVault_def vault1_def
      encryptKeys_clear encryptKeys_sealed Scatter_encrypt_def)
     (simp add: keychain1_def)

text \<open>
  C3 as stated fails where it has the whole vault document-encrypted before it is stored.  The
  document that \<open>update\<close> hands to the storage adapter carries the settings of the payload as
  they are, and \<open>LOAD\<close> in a session that holds no passphrase answers with that document: the
  list of networks is readable there (\<open>load\<close>, line 130, reads \<open>scatter.settings\<close> before any
  decryption).
\<close>

theorem update_cycle_counterexample:
  "storage (update sendResponse clearVault (unlockedState\<lparr>storage := None\<rparr>)) = Some vault1
   \<and> settings vault1 = settings clearVault
   \<and> networks (settings vault1) = [mainnet]
   \<and> storage lockedState = Some vault1
   \<and> seed lockedState = []
   \<and> dispenseMessage env1 sendResponse LOAD lockedState =
       lockedState\<lparr>responses := [RScatter vault1]\<rparr>"
  by (simp add: update_def lockGuard_def Scatter_encrypt_def Scatter_decrypt_def
      StorageService_save_def sendResponse_def unlockedState_def lockedState_def
      clearVault_def vault1_def encryptKeys_clear dispenseMessage_def checkAutoLock_def
      load_def loadResolved_def StorageService_get_def Let_def)

subsection \<open>Private keys\<close>

text \<open>
  C4.  Under a held passphrase that decrypts the stored vault, \<open>publicToPrivate\<close> answers null
  (no error) when no keypair of the keychain has the public key, and otherwise answers the
  private key of the matching keypair, field-decrypted with the passphrase.
\<close>

theorem publicToPrivate_lookup:
  assumes "seed st \<noteq> []"
    and "Scatter_decrypt (seed st) (StorageService_get e st) = Some s"
    and "keychain s = KeychainObject kc"
  shows "(publicKey \<notin> kp_publicKey ` set (keypairs kc) \<longrightarrow>
            publicToPrivate e sendResponse publicKey st = st\<lparr>responses := responses st @ [RNull]\<rparr>)
       \<and> (\<forall>kp k. find (\<lambda>x. kp_publicKey x = publicKey) (keypairs kc) = Some kp
                 \<and> AES_decrypt (kp_privateKey kp) (seed st) = Some k \<longrightarrow>
            publicToPrivate e sendResponse publicKey st =
              st\<lparr>responses := responses st @ [RSecret k]\<rparr>)"
proof -
  have "find (\<lambda>x. kp_publicKey x = publicKey) (keypairs kc) = None"
    if "publicKey \<notin> kp_publicKey ` set (keypairs kc)"
    using that by (auto simp: find_None_iff)
  then show ?thesis
    using assms by (auto simp: publicToPrivate_def lockGuard_def sendResponse_def)
qed

theorem publicToPrivate_lookup_witness:
  "seed unlockedState \<noteq> []
   \<and> Scatter_decrypt (seed unlockedState) (StorageService_get env1 unlockedState) =
       Some (vault1\<lparr>keychain := KeychainObject keychain1\<rparr>)
   \<and> keychain (vault1\<lparr>keychain := KeychainObject keychain1\<rparr>) = KeychainObject keychain1
   \<and> publicToPrivate env1 sendResponse ''B'' unlockedState = unlockedState\<lparr>responses := [RNull]\<rparr>
   \<and> publicToPrivate env1 sendResponse ''A'' unlockedState =
       unlockedState\<lparr>responses := [RSecret (Plain ''5Kab'')]\<rparr>"
  using publicToPrivate_lookup [OF _ unlocked_reads_vault1, of keychain1 "''B''"]
    publicToPrivate_lookup [OF _ unlocked_reads_vault1, of keychain1 "''A''"]
    unlocked_reads_vault1
  by (simp add: unlockedState_def lockedState_def keychain1_def)

text \<open>
  C5.  Under a held passphrase that decrypts the stored vault, \<open>authenticate\<close> answers the
  error \<open>identity_missing\<close> when no identity of the keychain has the public key.  When there
  is one and its private key field-decrypts, the answer is the error \<open>malicious_event\<close> if the
  decrypted key fails \<open>ecc.isValidPrivate\<close>, and otherwise the signature of the domain made
  with the decrypted key.
\<close>

theorem authenticate_outcomes:
  assumes "seed st \<noteq> []"
    and "Scatter_decrypt (seed st) (StorageService_get e st) = Some s"
    and "keychain s = KeychainObject kc"
  shows "(publicKey \<notin> id_publicKey ` set (identities kc) \<longrightarrow>
            authenticate e sendResponse publicKey domain st =
              st\<lparr>inactivityInterval := settings_inactivityInterval (settings s),
                 responses := responses st @ [RError IdentityMissing]\<rparr>)
       \<and> (\<forall>i k. findIdentity publicKey kc = Some i
                \<and> AES_decrypt (id_privateKey i) (seed st) = Some k \<longrightarrow>
            authenticate e sendResponse publicKey domain st =
              st\<lparr>inactivityInterval := settings_inactivityInterval (settings s),
                 responses := responses st @
                   [if isValidPrivate e k then RSignature (sign e domain k)
                    else RError MaliciousEvent]\<rparr>)"
proof -
  have "findIdentity publicKey kc = None"
    if "publicKey \<notin> id_publicKey ` set (identities kc)"
    using that by (auto simp: findIdentity_def find_None_iff)
  then show ?thesis
    using assms Scatter_decrypt_settings [OF assms(2)]
    by (auto simp: authenticate_def load_def loadResolved_def Let_def lockGuard_def sendResponse_def
        Identity_decrypt_def)
qed

theorem authenticate_outcomes_witness:
  "seed unlockedState \<noteq> []
   \<and> Scatter_decrypt (seed unlockedState) (StorageService_get env1 unlockedState) =
       Some (vault1\<lparr>keychain := KeychainObject keychain1\<rparr>)
   \<and> keychain (vault1\<lparr>keychain := KeychainObject keychain1\<rparr>) = KeychainObject keychain1
   \<and> authenticate env1 sendResponse ''Z'' ''app.example'' unlockedState =
       unlockedState\<lparr>responses := [RError IdentityMissing]\<rparr>
   \<and> authenticate env1 sendResponse ''M'' ''app.example'' unlockedState =
       unlockedState\<lparr>responses := [RError MaliciousEvent]\<rparr>
   \<and> authenticate env1 sendResponse ''A'' ''app.example'' unlockedState =
       unlockedState\<lparr>responses := [RSignature ''SIG(app.example)'']\<rparr>"
  using authenticate_outcomes [OF _ unlocked_reads_vault1, of keychain1 "''Z''" "''app.example''"]
    authenticate_outcomes [OF _ unlocked_reads_vault1, of keychain1 "''M''" "''app.example''"]
    authenticate_outcomes [OF _ unlocked_reads_vault1, of keychain1 "''A''" "''app.example''"]
    unlocked_reads_vault1
  by (simp add: unlockedState_def lockedState_def keychain1_def findIdentity_def vault1_def
      env1_def)

subsection \<open>Identity from permissions\<close>

text \<open>
  C10.  With no passphrase held, \<open>identityFromPermissions\<close> answers null: no \<open>locked\<close> error
  and no notice to the prompt collaborator.  It also answers null when a passphrase is held,
  the vault decrypts and no permission matches the domain.
\<close>

theorem identityFromPermissions_null:
  "(seed st = [] \<longrightarrow>
      dispenseMessage e sendResponse (IDENTITY_FROM_PERMISSIONS domain) st =
        (checkAutoLock st)\<lparr>responses := responses st @ [RNull]\<rparr>
      \<and> notifications (dispenseMessage e sendResponse (IDENTITY_FROM_PERMISSIONS domain) st) =
          notifications st)
   \<and> (seed st \<noteq> [] \<and> Scatter_decrypt (seed st) (StorageService_get e st) = Some s
        \<and> identityPermission e domain s = None \<longrightarrow>
      identityFromPermissions e sendResponse domain st =
        st\<lparr>inactivityInterval := settings_inactivityInterval (settings s),
           responses := responses st @ [RNull]\<rparr>)"
proof -
  have "settings s = settings (StorageService_get e st)"
    if "Scatter_decrypt (seed st) (StorageService_get e st) = Some s"
    using Scatter_decrypt_settings [OF that] by simp
  then show ?thesis
    by (auto simp: dispenseMessage_def identityFromPermissions_def load_def loadResolved_def Let_def
      sendResponse_def checkAutoLock_def)
qed

theorem identityFromPermissions_null_witness:
  "seed lockedState = []
   \<and> dispenseMessage env1 sendResponse (IDENTITY_FROM_PERMISSIONS ''app.example'') lockedState =
       lockedState\<lparr>responses := [RNull]\<rparr>
   \<and> notifications
       (dispenseMessage env1 sendResponse (IDENTITY_FROM_PERMISSIONS ''app.example'') lockedState) = []
   \<and> seed unlockedState \<noteq> []
   \<and> Scatter_decrypt (seed unlockedState) (StorageService_get env1 unlockedState) =
       Some (vault1\<lparr>keychain := KeychainObject keychain1\<rparr>)
   \<and> identityPermission env1 ''app.example'' (vault1\<lparr>keychain := KeychainObject keychain1\<rparr>) = None
   \<and> identityFromPermissions env1 sendResponse ''app.example'' unlockedState =
       unlockedState\<lparr>responses := [RNull]\<rparr>"
proof -
  have locked: "seed lockedState = []" "checkAutoLock lockedState = lockedState"
    "responses lockedState = []" "notifications lockedState = []"
    by (simp_all add: lockedState_def checkAutoLock_def)
  have unlocked: "seed unlockedState \<noteq> []" "responses unlockedState = []"
    "unlockedState\<lparr>inactivityInterval :=
        settings_inactivityInterval (settings (vault1\<lparr>keychain := KeychainObject keychain1\<rparr>))\<rparr> =
      unlockedState"
    by (simp_all add: unlockedState_def lockedState_def vault1_def)
  show ?thesis
    using identityFromPermissions_null [where st = lockedState and e = env1
        and domain = "''app.example''"]
      identityFromPermissions_null [where st = unlockedState and e = env1
        and domain = "''app.example''" and s = "vault1\<lparr>keychain := KeychainObject keychain1\<rparr>"]
      unlocked_reads_vault1 no_permission_yet locked unlocked
    by simp
qed

subsection \<open>A passphrase that does not decrypt\<close>

text \<open>
  C1.  The vault is encrypted under \<open>correct-seed\<close> and the session holds \<open>wrong-seed\<close>.
  \<open>LOAD\<close>, \<open>PUB_TO_PRIV\<close> and \<open>AUTHENTICATE\<close> leave the state as it is: the passphrase stays
  and the request gets no response.  Only \<open>IS_UNLOCKED\<close> clears the passphrase and answers
  false.
\<close>

theorem load_keeps_wrong_passphrase:
  "Scatter_decrypt (seed mistakenState) (StorageService_get env1 mistakenState) = None
   \<and> dispenseMessage env1 sendResponse LOAD mistakenState = mistakenState
   \<and> dispenseMessage env1 sendResponse (PUB_TO_PRIV ''A'') mistakenState = mistakenState
   \<and> dispenseMessage env1 sendResponse (AUTHENTICATE ''A'' ''app.example'') mistakenState =
       mistakenState
   \<and> dispenseMessage env1 sendResponse IS_UNLOCKED mistakenState =
       mistakenState\<lparr>seed := [], responses := [RBool False]\<rparr>"
  by (simp add: mistakenState_def lockedState_def dispenseMessage_def checkAutoLock_def load_def loadResolved_def
      publicToPrivate_def authenticate_def isUnlocked_def lockGuard_def StorageService_get_def
      Scatter_decrypt_def vault1_def sendResponse_def Let_def)

subsection \<open>Adding a network\<close>

text \<open>
  C8.  Under a held passphrase that decrypts the stored vault, \<open>requestAddNetwork\<close> answers
  true and opens no prompt when \<open>settings.networks\<close> has a network with the same uniqueness
  key.  Otherwise it opens the prompt.  On an approval the network is put in front of
  \<open>settings.networks\<close> and the vault goes through the update cycle; on any other answer, and
  when the prompt is never answered, the stored vault is as before.
\<close>

theorem requestAddNetwork_outcomes:
  assumes "seed st \<noteq> []"
    and "Scatter_decrypt (seed st) (StorageService_get e st) = Some s"
    and "keychain s = KeychainObject kc"
  shows "(let st1 = st\<lparr>inactivityInterval := settings_inactivityInterval (settings s)\<rparr>;
              after = requestAddNetwork e sendResponse domain network answer st
          in (unique network \<in> unique ` set (networks (settings s)) \<longrightarrow>
                after = st1\<lparr>responses := responses st @ [RBool True]\<rparr>)
           \<and> (unique network \<notin> unique ` set (networks (settings s)) \<and> answer = Some Approved \<longrightarrow>
                after =
                  st1\<lparr>storage := Some (Scatter_encrypt (seed st)
                         (s\<lparr>settings := (settings s)\<lparr>networks := network # networks (settings s)\<rparr>,
                            keychain := KeychainObject (encryptKeys (seed st) kc)\<rparr>)),
                      notifications := notifications st @ [RequestAddNetworkPrompt domain network],
                      responses := responses st @ [RDecision Approved]\<rparr>)
           \<and> (unique network \<notin> unique ` set (networks (settings s)) \<and> answer \<noteq> Some Approved \<longrightarrow>
                after =
                  st1\<lparr>notifications := notifications st @ [RequestAddNetworkPrompt domain network],
                      responses := responses st @
                        (case answer of None \<Rightarrow> [] | Some x \<Rightarrow> [RDecision x])\<rparr>))"
proof -
  have known: "(find (\<lambda>n. unique n = unique network) (networks (settings s)) \<noteq> None) =
      (unique network \<in> unique ` set (networks (settings s)))"
    by (rule find_by_key)
  have same: "settings (StorageService_get e st) = settings s"
    using Scatter_decrypt_settings [OF assms(2)] by simp
  have dec: "answer \<noteq> Some Approved \<Longrightarrow> answer = Some x \<Longrightarrow> x = Declined \<or> isError x" for x
    by (cases x) auto
  show ?thesis
    using assms known same
    apply (simp add: Let_def requestAddNetwork_def lockGuard_def load_def loadResolved_def)
    apply (intro conjI impI)
      apply (simp add: sendResponse_def)
     apply (simp add: update_def lockGuard_def NotificationService_open_def Scatter_encrypt_def
        Scatter_decrypt_def StorageService_save_def sendResponse_def)
    apply (cases answer)
     apply (simp add: NotificationService_open_def)
    subgoal for x
      using dec [of x]
      by (auto simp: NotificationService_open_def sendResponse_def)
    done
qed

theorem requestAddNetwork_outcomes_witness:
  "seed unlockedState \<noteq> []
   \<and> Scatter_decrypt (seed unlockedState) (StorageService_get env1 unlockedState) =
       Some (vault1\<lparr>keychain := KeychainObject keychain1\<rparr>)
   \<and> keychain (vault1\<lparr>keychain := KeychainObject keychain1\<rparr>) = KeychainObject keychain1
   \<and> requestAddNetwork env1 sendResponse ''app.example'' mainnet (Some Approved) unlockedState =
       unlockedState\<lparr>responses := [RBool True]\<rparr>
   \<and> storage (requestAddNetwork env1 sendResponse ''app.example'' testnet (Some Approved)
        unlockedState) =
       Some (vault1\<lparr>settings := \<lparr>settings_inactivityInterval = 0, networks = [testnet, mainnet]\<rparr>,
                    keychain := KeychainString ''correct-seed''
                      (encryptKeys ''correct-seed'' keychain1)\<rparr>)
   \<and> requestAddNetwork env1 sendResponse ''app.example'' testnet (Some Declined) unlockedState =
       unlockedState\<lparr>notifications := [RequestAddNetworkPrompt ''app.example'' testnet],
                     responses := [RDecision Declined]\<rparr>"
proof -
  have unlocked: "seed unlockedState = ''correct-seed''" "responses unlockedState = []"
    "notifications unlockedState = []" "unlockedState\<lparr>inactivityInterval := 0\<rparr> = unlockedState"
    by (simp_all add: unlockedState_def lockedState_def)
  have stored: "Scatter_encrypt ''correct-seed''
      (vault1\<lparr>keychain := KeychainObject keychain1,
              settings := (settings vault1)\<lparr>networks := [testnet, mainnet]\<rparr>,
              keychain := KeychainObject (encryptKeys ''correct-seed'' keychain1)\<rparr>) =
     vault1\<lparr>settings := \<lparr>settings_inactivityInterval = 0, networks = [testnet, mainnet]\<rparr>,
            keychain := KeychainString ''correct-seed'' (encryptKeys ''correct-seed'' keychain1)\<rparr>"
    by (simp add: Scatter_encrypt_def vault1_def)
  show ?thesis
    using requestAddNetwork_outcomes [OF _ unlocked_reads_vault1, where kc = keychain1
        and domain = "''app.example''" and network = mainnet and answer = "Some Approved"]
      requestAddNetwork_outcomes [OF _ unlocked_reads_vault1, where kc = keychain1
        and domain = "''app.example''" and network = testnet and answer = "Some Approved"]
      requestAddNetwork_outcomes [OF _ unlocked_reads_vault1, where kc = keychain1
        and domain = "''app.example''" and network = testnet and answer = "Some Declined"]
      unlocked_reads_vault1 unlocked networks_vault1 stored
    by (simp add: Let_def)
qed

subsection \<open>Setting the passphrase\<close>

text \<open>
  C9.  \<open>SET_SEED\<close> stores any payload as the passphrase, the empty string too, and answers
  true.  After an empty passphrase has been set the session is locked: whatever requests and
  idle time follow, as long as none sets a passphrase that is not empty, a guarded request is
  answered with the \<open>locked\<close> error and a lock notice.
\<close>

theorem setSeed_unvalidated:
  assumes "\<forall>ev \<in> set evs. \<not> setsPassphrase ev" and "privileged m"
  shows "dispenseMessage e sendResponse (SET_SEED s) st =
           (checkAutoLock st)\<lparr>seed := s, responses := responses st @ [RBool True]\<rparr>
       \<and> (let st' = run e (Request (SET_SEED []) # evs) st
          in seed st' = []
           \<and> dispenseMessage e sendResponse m st' =
               (checkAutoLock st')\<lparr>notifications := notifications st' @ [ScatterIsLocked],
                                   responses := responses st' @ [RError Locked]\<rparr>)"
proof -
  have first: "dispenseMessage e sendResponse (SET_SEED s) st =
      (checkAutoLock st)\<lparr>seed := s, responses := responses st @ [RBool True]\<rparr>" for s
    by (simp add: dispenseMessage_def setSeed_def sendResponse_def checkAutoLock_def Let_def)
  have "seed (dispenseMessage e sendResponse (SET_SEED []) st) = []"
    by (simp add: first)
  then have locked: "seed (run e (Request (SET_SEED []) # evs) st) = []"
    using locked_run [OF _ assms(1)] by simp
  show ?thesis
    using first locked privileged_locked [OF locked assms(2)] by (simp add: Let_def)
qed

theorem setSeed_unvalidated_witness:
  "\<not> setsPassphrase (Request IS_UNLOCKED) \<and> \<not> setsPassphrase (Idle 1000)
   \<and> \<not> setsPassphrase (Request LOAD)
   \<and> privileged DESTROY
   \<and> dispenseMessage env1 sendResponse (SET_SEED ''anything'') lockedState =
       lockedState\<lparr>seed := ''anything'', responses := [RBool True]\<rparr>
   \<and> seed (run env1 [Request (SET_SEED []), Request IS_UNLOCKED, Idle 1000, Request LOAD]
        unlockedState) = []
   \<and> responses (dispenseMessage env1 sendResponse DESTROY
        (run env1 [Request (SET_SEED []), Request IS_UNLOCKED, Idle 1000, Request LOAD]
           unlockedState)) =
       [RBool True, RBool False, RScatter vault1, RError Locked]"
proof -
  have r: "run env1 [Request (SET_SEED []), Request IS_UNLOCKED, Idle 1000, Request LOAD]
      unlockedState =
    lockedState\<lparr>clock := 1000, responses := [RBool True, RBool False, RScatter vault1]\<rparr>"
    by (simp add: unlockedState_def lockedState_def dispenseMessage_def checkAutoLock_def
        setSeed_def isUnlocked_def load_def loadResolved_def idle_def sendResponse_def StorageService_get_def
        vault1_def Let_def)
  have l: "checkAutoLock lockedState = lockedState" "responses lockedState = []"
    by (simp_all add: lockedState_def checkAutoLock_def)
  show ?thesis
    using setSeed_unvalidated [where evs = "[Request IS_UNLOCKED, Idle 1000, Request LOAD]"
        and m = DESTROY and e = env1 and st = unlockedState and s = "''anything''"]
      setSeed_unvalidated [where evs = "[]" and m = DESTROY and e = env1 and st = lockedState
        and s = "''anything''"]
      r l
    by (simp add: Let_def)
qed

subsection \<open>The auto-lock timer\<close>

text \<open>
  C7.  The session holds the passphrase and the stored inactivity interval is 0.  The interval
  is set to 5 minutes, a request arrives (it sets the timer for 300000), and the interval is
  set back to 0.  Now the interval is 0 and the passphrase is held, but the timer is still
  pending: \<open>checkAutoLock\<close> returns at line 80, before the \<open>clearTimeout\<close> of line 81, on
  every later request.  After 5 idle minutes the timer fires and the passphrase is gone,
  although auto-lock is disabled.
\<close>

theorem stale_timer_fires:
  "inactivityInterval
     (run env1 [Request (SET_TIMEOUT 5), Request IS_UNLOCKED, Request (SET_TIMEOUT 0)]
        unlockedState) = 0
   \<and> seed (run env1 [Request (SET_TIMEOUT 5), Request IS_UNLOCKED, Request (SET_TIMEOUT 0)]
        unlockedState) = ''correct-seed''
   \<and> timeoutLocker (run env1 [Request (SET_TIMEOUT 5), Request IS_UNLOCKED, Request (SET_TIMEOUT 0)]
        unlockedState) = Some 300000
   \<and> timeoutLocker (run env1 [Request (SET_TIMEOUT 5), Request IS_UNLOCKED, Request (SET_TIMEOUT 0),
        Request IS_UNLOCKED] unlockedState) = Some 300000
   \<and> seed (run env1 [Request (SET_TIMEOUT 5), Request IS_UNLOCKED, Request (SET_TIMEOUT 0),
        Request IS_UNLOCKED, Idle 300000] unlockedState) = []"
proof -
  have later: "run env1 [Request (SET_TIMEOUT 5), Request IS_UNLOCKED, Request (SET_TIMEOUT 0),
        Request IS_UNLOCKED] unlockedState =
      run env1 [Request IS_UNLOCKED]
        (run env1 [Request (SET_TIMEOUT 5), Request IS_UNLOCKED, Request (SET_TIMEOUT 0)]
           unlockedState)"
    "run env1 [Request (SET_TIMEOUT 5), Request IS_UNLOCKED, Request (SET_TIMEOUT 0),
        Request IS_UNLOCKED, Idle 300000] unlockedState =
      run env1 [Request IS_UNLOCKED, Idle 300000]
        (run env1 [Request (SET_TIMEOUT 5), Request IS_UNLOCKED, Request (SET_TIMEOUT 0)]
           unlockedState)"
    by simp_all
  show ?thesis
    unfolding later pending_after_disabling
    by (simp add: unlockedState_def lockedState_def dispenseMessage_def checkAutoLock_def
        isUnlocked_def sendResponse_def StorageService_get_def Scatter_decrypt_def
        isEncrypted_def vault1_def Let_def idle_def)
qed

subsection \<open>Permission grants\<close>

text \<open>
  C6.  The session holds a passphrase and the stored vault is encrypted under it.  Adding a
  permission whose checksum the stored keychain has already leaves \<open>keychain.permissions\<close> as
  it is.  After the same permission has been granted twice (two permissions with one checksum,
  their timestamps may differ) the number of entries with that checksum is 1 if there was none
  before, and as before otherwise.  When the checksums of the stored permissions are unique,
  they are unique after any sequence of grants, and two grants of one permission leave exactly
  one entry with its checksum.
\<close>

theorem grants_deduplicated:
  assumes "sealedUnderSeed st"
  shows "(entriesWith (checksum p) (storedPermissions st) \<noteq> 0 \<longrightarrow>
            storedPermissions (addPermissions e [p] st) = storedPermissions st)
       \<and> (checksum p' = checksum p \<longrightarrow>
            entriesWith (checksum p)
              (storedPermissions (addPermissions e [p'] (addPermissions e [p] st))) =
            (if entriesWith (checksum p) (storedPermissions st) = 0 then 1
             else entriesWith (checksum p) (storedPermissions st)))
       \<and> (distinct (map checksum (storedPermissions st)) \<longrightarrow>
            distinct (map checksum (storedPermissions (fold (addPermissions e) grants st)))
            \<and> (checksum p' = checksum p \<longrightarrow>
                 entriesWith (checksum p)
                   (storedPermissions (addPermissions e [p'] (addPermissions e [p] st))) = 1))"
proof -
  from addPermissions_stored(2) [OF assms, of e "[p]"]
  obtain kc where kc: "permissions kc = storedPermissions st"
    "storedPermissions (addPermissions e [p] st) = permissions (unshiftNew [p] kc)"
    by blast
  have sealed1: "sealedUnderSeed (addPermissions e [p] st)"
    by (rule addPermissions_stored(1) [OF assms])
  from addPermissions_stored(2) [OF sealed1, of e "[p']"]
  obtain kc1 where kc1: "permissions kc1 = storedPermissions (addPermissions e [p] st)"
    "storedPermissions (addPermissions e [p'] (addPermissions e [p] st)) =
       permissions (unshiftNew [p'] kc1)"
    by blast
  have noop: "storedPermissions (addPermissions e [p] st) = storedPermissions st"
    if "entriesWith (checksum p) (storedPermissions st) \<noteq> 0"
    using that kc by (simp add: hasPermission_iff entriesWith_zero)
  have once: "entriesWith (checksum p) (storedPermissions (addPermissions e [p] st)) =
      (if entriesWith (checksum p) (storedPermissions st) = 0 then 1
       else entriesWith (checksum p) (storedPermissions st))"
    using unshiftNew_entries [of "checksum p" "[p]" kc] kc by simp
  have twice: "entriesWith (checksum p)
        (storedPermissions (addPermissions e [p'] (addPermissions e [p] st))) =
      (if entriesWith (checksum p) (storedPermissions st) = 0 then 1
       else entriesWith (checksum p) (storedPermissions st))"
    if "checksum p' = checksum p"
    using unshiftNew_entries [of "checksum p" "[p']" kc1] kc1 once that by simp
  have exactly: "entriesWith (checksum p)
        (storedPermissions (addPermissions e [p'] (addPermissions e [p] st))) = 1"
    if "distinct (map checksum (storedPermissions st))" "checksum p' = checksum p"
    using twice [OF that(2)] entriesWith_unique [OF that(1), of "checksum p"]
    by (simp split: if_splits)
  show ?thesis
    using noop twice exactly grants_keep_unique [OF assms, of e grants] by blast
qed

theorem grants_deduplicated_witness:
  "sealedUnderSeed unlockedState
   \<and> sealedUnderSeed (addPermissions env1 [grant1] unlockedState)
   \<and> entriesWith (checksum grant1)
       (storedPermissions (addPermissions env1 [grant1] unlockedState)) \<noteq> 0
   \<and> storedPermissions
       (addPermissions env1 [grant1\<lparr>perm_timestamp := 20\<rparr>]
          (addPermissions env1 [grant1] unlockedState)) = [grant1]
   \<and> checksum (grant1\<lparr>perm_timestamp := 20\<rparr>) = checksum grant1
   \<and> distinct (map checksum (storedPermissions unlockedState))
   \<and> entriesWith (checksum grant1)
       (storedPermissions
          (addPermissions env1 [grant1\<lparr>perm_timestamp := 20\<rparr>]
             (addPermissions env1 [grant1] unlockedState))) = 1
   \<and> distinct (map checksum (storedPermissions
        (fold (addPermissions env1) [[grant1], [grant1\<lparr>perm_timestamp := 20\<rparr>]] unlockedState)))"
proof -
  have sealed1: "sealedUnderSeed (addPermissions env1 [grant1] unlockedState)"
    by (rule addPermissions_stored(1) [OF sealed_unlockedState])
  show ?thesis
    using grants_deduplicated [OF sealed_unlockedState, where e = env1 and p = grant1
        and p' = "grant1\<lparr>perm_timestamp := 20\<rparr>"
        and grants = "[[grant1], [grant1\<lparr>perm_timestamp := 20\<rparr>]]"]
      grants_deduplicated [OF sealed1, where e = env1 and p = "grant1\<lparr>perm_timestamp := 20\<rparr>"
        and p' = grant1 and grants = "[]"]
      sealed_unlockedState sealed1 granted_once granted_checksums
    by simp
qed

end
